theory Spec2Isabelle
  imports Main "HOL-Library.Char_ord" "HOL-Library.Multiset"
begin

section \<open>The plants gallery page (src/pages/index.tsx)\<close>

text \<open>
  The page has two components with state: \<open>Gallery\<close> owns the list of images of the
  session, \<open>Uploader\<close> owns the flag of its modal dialog and the form.  The model
  follows the source function by function.  JavaScript strings are modelled as
  \<open>string\<close> (one \<open>char\<close> per code unit, which is exact for ASCII input), the number
  \<open>amount\<close> as \<open>nat\<close> (it is the length of an array) and the number \<open>id\<close> as \<open>int\<close>.
  A thrown exception is the left summand of \<open>js_error + 'a\<close>.
\<close>

datatype js_error = TypeError

subsection \<open>The pattern of the \<open>imageSrc\<close> input\<close>

text \<open>
  The fragment of the regular expression syntax that the pattern of the source uses:
  literal characters, the dot, character classes (a list of inclusive ranges), bounded and
  unbounded repetition of a class, optional groups, sequencing and the word boundary
  \<^verbatim>\<open>\b\<close>.  Capture groups only record what they matched, which validation never reads.
  The dot matches every character but a line terminator; of the four line terminators of
  the language, line feed and carriage return are characters of \<open>string\<close>.
\<close>

type_synonym charclass = "(char \<times> char) list"

datatype rx =
    Lit char
  | Dot
  | Class charclass
  | Repeat nat "nat option" charclass
  | Opt rx
  | Seq rx rx
  | WordBoundary

text \<open>
  A position of the matcher inside the subject string: the character just before the
  position (\<open>None\<close> at the start of the subject) and the rest of the subject.
\<close>

type_synonym pos = "char option \<times> string"

definition in_class :: "charclass \<Rightarrow> char \<Rightarrow> bool" where
  "in_class cs c = list_ex (\<lambda>(lo, hi). lo \<le> c \<and> c \<le> hi) cs"

definition is_line_terminator :: "char \<Rightarrow> bool" where
  "is_line_terminator c = (c = CHR 0x0A \<or> c = CHR 0x0D)"

definition word_chars :: charclass where
  "word_chars = [(CHR ''a'', CHR ''z''), (CHR ''A'', CHR ''Z''), (CHR ''0'', CHR ''9''),
                 (CHR ''_'', CHR ''_'')]"

definition is_word :: "char option \<Rightarrow> bool" where
  "is_word c = (case c of None \<Rightarrow> False | Some x \<Rightarrow> in_class word_chars x)"

definition next_char :: "string \<Rightarrow> char option" where
  "next_char s = (case s of [] \<Rightarrow> None | x # _ \<Rightarrow> Some x)"

text \<open>
  \<open>runs cs p s\<close> lists the positions reached from \<open>(p, s)\<close> by reading 0, 1, 2, ...
  characters of the class \<open>cs\<close>, in this order.
\<close>

fun runs :: "charclass \<Rightarrow> char option \<Rightarrow> string \<Rightarrow> pos list" where
  "runs cs p [] = [(p, [])]"
| "runs cs p (x # xs) = (p, x # xs) # (if in_class cs x then runs cs (Some x) xs else [])"

text \<open>
  \<open>ends r q\<close> lists every position at which a match of \<open>r\<close> that starts at \<open>q\<close> can
  end.  The engine of the language tries them in its own (greedy) order; validation only
  asks whether there is one.
\<close>

fun ends :: "rx \<Rightarrow> pos \<Rightarrow> pos list" where
  "ends (Lit c) (p, s) =
     (case s of [] \<Rightarrow> [] | x # xs \<Rightarrow> if x = c then [(Some x, xs)] else [])"
| "ends Dot (p, s) =
     (case s of [] \<Rightarrow> [] | x # xs \<Rightarrow> if is_line_terminator x then [] else [(Some x, xs)])"
| "ends (Class cs) (p, s) =
     (case s of [] \<Rightarrow> [] | x # xs \<Rightarrow> if in_class cs x then [(Some x, xs)] else [])"
| "ends (Repeat lo hi cs) (p, s) =
     (case hi of
        None \<Rightarrow> drop lo (runs cs p s)
      | Some h \<Rightarrow> take (Suc h - lo) (drop lo (runs cs p s)))"
| "ends (Opt r) q = ends r q @ [q]"
| "ends (Seq r1 r2) q = concat (map (ends r2) (ends r1 q))"
| "ends WordBoundary (p, s) = (if is_word p \<noteq> is_word (next_char s) then [(p, s)] else [])"

text \<open>
  \<open>search r p s\<close>: is there a match of \<open>r\<close> starting at some position of the subject, the
  way \<open>String.prototype.match\<close> and \<open>RegExp.prototype.test\<close> look for one (the
  pattern is not anchored)?  \<open>whole r s\<close>: does \<open>r\<close> match the subject from its first to
  its last character?
\<close>

fun search :: "rx \<Rightarrow> char option \<Rightarrow> string \<Rightarrow> bool" where
  "search r p [] = (ends r (p, []) \<noteq> [])"
| "search r p (x # xs) = (ends r (p, x # xs) \<noteq> [] \<or> search r (Some x) xs)"

definition test :: "rx \<Rightarrow> string \<Rightarrow> bool" where
  "test r s = search r None s"

definition whole :: "rx \<Rightarrow> string \<Rightarrow> bool" where
  "whole r s = list_ex (\<lambda>q. snd q = []) (ends r (None, s))"

definition lits :: "string \<Rightarrow> rx \<Rightarrow> rx" where
  "lits s r = foldr (\<lambda>c. Seq (Lit c)) s r"

text \<open>
  The two character classes and the pattern of the source, piece by piece:
  \<^verbatim>\<open>/(http(s)?:\/\/.)?(www\.)?[-a-zA-Z0-9@:%._\+~#=]{2,256}\.[a-z]{2,6}\b([-a-zA-Z0-9@:%_\+.~#?&//=]*)/g\<close>
\<close>

definition host_class :: charclass where
  "host_class =
     [(CHR ''-'', CHR ''-''), (CHR ''a'', CHR ''z''), (CHR ''A'', CHR ''Z''),
      (CHR ''0'', CHR ''9''), (CHR ''@'', CHR ''@''), (CHR '':'', CHR '':''),
      (CHR ''%'', CHR ''%''), (CHR ''.'', CHR ''.''), (CHR ''_'', CHR ''_''),
      (CHR ''+'', CHR ''+''), (CHR ''~'', CHR ''~''), (CHR ''#'', CHR ''#''),
      (CHR ''='', CHR ''='')]"

definition path_class :: charclass where
  "path_class =
     [(CHR ''-'', CHR ''-''), (CHR ''a'', CHR ''z''), (CHR ''A'', CHR ''Z''),
      (CHR ''0'', CHR ''9''), (CHR ''@'', CHR ''@''), (CHR '':'', CHR '':''),
      (CHR ''%'', CHR ''%''), (CHR ''_'', CHR ''_''), (CHR ''+'', CHR ''+''),
      (CHR ''.'', CHR ''.''), (CHR ''~'', CHR ''~''), (CHR ''#'', CHR ''#''),
      (CHR ''?'', CHR ''?''), (CHR ''&'', CHR ''&''), (CHR ''/'', CHR ''/''),
      (CHR ''/'', CHR ''/''), (CHR ''='', CHR ''='')]"

definition imageSrc_pattern :: rx where
  "imageSrc_pattern =
     Seq (Opt (lits ''http'' (Seq (Opt (Lit CHR ''s'')) (lits ''://'' Dot))))
    (Seq (Opt (lits ''www'' (Lit CHR ''.'')))
    (Seq (Repeat 2 (Some 256) host_class)
    (Seq (Lit CHR ''.'')
    (Seq (Repeat 2 (Some 6) [(CHR ''a'', CHR ''z'')])
    (Seq WordBoundary
         (Repeat 0 None path_class))))))"

subsection \<open>Records of the page\<close>

text \<open>
  The type \<open>Image\<close> of the source.  Its field \<open>id\<close> is called \<open>id_img\<close> here, because
  \<open>id\<close> is the identity function of HOL.
\<close>

record Image =
  id_img :: int
  imageSrc :: string
  name :: string
  username :: string

text \<open>
  The type \<open>Inputs\<close> of the source.  Its fields carry the suffix \<open>_in\<close>, since three of
  them have the names of fields of \<open>Image\<close>.  A text input that the user left alone has
  the empty string as its value.
\<close>

record Inputs =
  imageSrc_in :: string
  name_in :: string
  username_in :: string
  key_in :: string

subsection \<open>The form: registered fields and their validation\<close>

datatype Field = F_imageSrc | F_name | F_username | F_key

datatype ErrorKind = Required | Pattern

record RegisterOptions =
  pattern :: "rx option"
  required :: bool

text \<open>The four \<open>register\<close> calls of \<open>Uploader\<close>, in the order of the inputs of the form.\<close>

definition Uploader_fields :: "(Field \<times> RegisterOptions) list" where
  "Uploader_fields =
     [(F_imageSrc, \<lparr>pattern = Some imageSrc_pattern, required = True\<rparr>),
      (F_name, \<lparr>pattern = None, required = False\<rparr>),
      (F_username, \<lparr>pattern = None, required = False\<rparr>),
      (F_key, \<lparr>pattern = None, required = True\<rparr>)]"

fun field_value :: "Inputs \<Rightarrow> Field \<Rightarrow> string" where
  "field_value d F_imageSrc = imageSrc_in d"
| "field_value d F_name = name_in d"
| "field_value d F_username = username_in d"
| "field_value d F_key = key_in d"

text \<open>
  Modelled from the spec: the validation of the form library (\<open>useForm\<close>, \<open>register\<close> and
  \<open>handleSubmit\<close> of react-hook-form), which is not part of the repository.  Section 4.2,
  step 1: required fields and the pattern are validated, and an invalid form is not
  submitted; a field fails as \<open>Required\<close> when it is required and empty, and as \<open>Pattern\<close>
  when it is not empty and has no match of its pattern.
\<close>

definition validateField :: "RegisterOptions \<Rightarrow> string \<Rightarrow> ErrorKind option" where
  "validateField opts v =
     (if required opts \<and> v = [] then Some Required
      else case pattern opts of
             None \<Rightarrow> None
           | Some r \<Rightarrow> if v \<noteq> [] \<and> \<not> test r v then Some Pattern else None)"

fun form_errors :: "(Field \<times> RegisterOptions) list \<Rightarrow> Inputs \<Rightarrow> (Field \<times> ErrorKind) list" where
  "form_errors [] d = []"
| "form_errors ((f, opts) # fs) d =
     (case validateField opts (field_value d f) of
        None \<Rightarrow> form_errors fs d
      | Some k \<Rightarrow> (f, k) # form_errors fs d)"

subsection \<open>State of the page\<close>

text \<open>
  \<open>localImages\<close> is the state of \<open>Gallery\<close>; it is \<open>None\<close> when the page was given
  \<open>null\<close> (the store query of \<open>getStaticProps\<close> yields \<open>data = null\<close> when it fails).
  \<open>isOpen\<close> is the state of \<open>Uploader\<close>, \<open>errors\<close> the \<open>formState.errors\<close> of its form.
  \<open>inserted\<close> is not a variable of the program: it logs, in call order, the rows that were
  passed to \<^verbatim>\<open>supabaseAdmin.from('images').insert\<close>.
\<close>

record App =
  localImages :: "Image list option"
  isOpen :: bool
  errors :: "(Field \<times> ErrorKind) list"
  inserted :: "Image list"

text \<open>
  What the awaited insert resolves to.  The source never asks the client to throw, so a
  remote failure arrives as a resolved value with its \<open>error\<close> set
  (\<open>insert_image(record) -> Result<(), Error>\<close> in the spec).  The store client is
  taken as given: \<open>createClient\<close> is assumed to return a client for the two parameters
  of the environment.
\<close>

datatype InsertResult = InsertOk | InsertError string

definition mount :: "Image list option \<Rightarrow> App" where
  "mount images = \<lparr>localImages = images, isOpen = False, errors = [], inserted = []\<rparr>"

subsection \<open>Gallery\<close>

text \<open>
  A tile is what \<open>BlurImage\<close> renders from an image: the React key given by \<open>Gallery\<close>,
  the link target, the image source and the two captions.  (The flag \<open>isLoading\<close> of a
  tile only selects the CSS classes of the blur effect.)
\<close>

record Tile =
  tile_key :: int
  href :: string
  src :: string
  heading :: string
  caption :: string

definition BlurImage :: "Image \<Rightarrow> Tile" where
  "BlurImage img =
     \<lparr>tile_key = id_img img, href = imageSrc img, src = imageSrc img,
      heading = name img, caption = username img\<rparr>"

datatype Grid = Tiles "Tile list" | ImagesNotFound

record GalleryView =
  uploader_amount :: nat
  grid :: Grid


text \<open>Reading \<open>.length\<close> of \<open>null\<close> throws a TypeError.\<close>

definition array_length :: "'a list option \<Rightarrow> js_error + nat" where
  "array_length a = (case a of None \<Rightarrow> Inl TypeError | Some xs \<Rightarrow> Inr (length xs))"

text \<open>
  \<open>Gallery\<close> builds its element tree from the top: the header with
  \<^verbatim>\<open><Uploader amount={localImages.length} ... />\<close> is evaluated first, the grid with the
  test \<^verbatim>\<open>localImages ? ... : ...\<close> after it.  An array, also an empty one, is truthy.
\<close>

definition Gallery :: "Image list option \<Rightarrow> js_error + GalleryView" where
  "Gallery imgs =
     (case array_length imgs of
        Inl e \<Rightarrow> Inl e
      | Inr amount \<Rightarrow>
          Inr \<lparr>uploader_amount = amount,
               grid = (case imgs of
                         Some xs \<Rightarrow> Tiles (map BlurImage xs)
                       | None \<Rightarrow> ImagesNotFound)\<rparr>)"

subsection \<open>Uploader\<close>

definition closeModal :: "App \<Rightarrow> App" where
  "closeModal st = st\<lparr>isOpen := False\<rparr>"

definition openModal :: "App \<Rightarrow> App" where
  "openModal st = st\<lparr>isOpen := True\<rparr>"

text \<open>
  The updater \<^verbatim>\<open>(prev) => [...prev, item]\<close> given to \<open>setLocalImages\<close>; spreading
  \<open>null\<close> into an array literal throws a TypeError.
\<close>

definition append_item :: "Image \<Rightarrow> Image list option \<Rightarrow> js_error + Image list option" where
  "append_item item prev =
     (case prev of None \<Rightarrow> Inl TypeError | Some xs \<Rightarrow> Inr (Some (xs @ [item])))"

definition setLocalImages ::
  "(Image list option \<Rightarrow> js_error + Image list option) \<Rightarrow> App \<Rightarrow> js_error + App" where
  "setLocalImages f st =
     (case f (localImages st) of Inl e \<Rightarrow> Inl e | Inr v \<Rightarrow> Inr (st\<lparr>localImages := v\<rparr>))"

text \<open>\<^verbatim>\<open>a || b\<close> on strings: the empty string is the only falsy one.\<close>

definition or_else :: "string \<Rightarrow> string \<Rightarrow> string" where
  "or_else a b = (if a = [] then b else a)"

text \<open>
  \<open>onSubmit\<close>, with the prop \<open>amount\<close> of the render whose closure handles the event,
  and with the value \<open>res\<close> that the awaited insert resolves to (the source drops it).
\<close>

definition onSubmit :: "nat \<Rightarrow> InsertResult \<Rightarrow> Inputs \<Rightarrow> App \<Rightarrow> js_error + App" where
  "onSubmit amount res data st =
     (if key_in data \<noteq> ''on'' then Inr (closeModal st)
      else
        let item = \<lparr>id_img = int amount + 1,
                    imageSrc = imageSrc_in data,
                    name = or_else (name_in data) ''plant from anonymous'',
                    username = or_else (username_in data) ''anonymous''\<rparr>;
            st1 = st\<lparr>inserted := inserted st @ [item]\<rparr>
        in case setLocalImages (append_item item) st1 of
             Inl e \<Rightarrow> Inl e
           | Inr st2 \<Rightarrow> Inr (closeModal st2))"

text \<open>
  Modelled from the spec: \<open>handleSubmit\<close> of the form library.  It validates every
  registered field, stores the errors in the form state, and calls the handler only
  when there is none (section 4.2, step 1).
\<close>

definition handleSubmit ::
  "(Field \<times> RegisterOptions) list \<Rightarrow> (Inputs \<Rightarrow> App \<Rightarrow> js_error + App) \<Rightarrow>
   Inputs \<Rightarrow> App \<Rightarrow> js_error + App" where
  "handleSubmit regs onValid data st =
     (let errs = form_errors regs data in
      if errs = [] then onValid data (st\<lparr>errors := []\<rparr>)
      else Inr (st\<lparr>errors := errs\<rparr>))"

text \<open>
  What \<open>Uploader\<close> shows: the trigger button, and the dialog with its form while
  \<open>isOpen\<close> holds.  The source destructures \<open>errors\<close> from the form state and never
  renders it, so the view has no place for an error message.
\<close>

record DialogView =
  title :: string
  placeholders :: "string list"
  submit_label :: string

record UploaderView =
  trigger :: string
  dialog :: "DialogView option"

definition Uploader :: "App \<Rightarrow> UploaderView" where
  "Uploader st =
     \<lparr>trigger = ''Upload'',
      dialog = (if isOpen st
                then Some \<lparr>title = ''Add new plant'',
                           placeholders = [''Image link from Unsplash'',
                                           ''Give a name to image or not'',
                                           ''Introduce yourself or not'',
                                           ''Your key''],
                           submit_label = ''Save''\<rparr>
                else None)\<rparr>"

subsection \<open>Events of a session\<close>

text \<open>
  The user clicks the trigger, dismisses the dialog, or submits the form with the given
  inputs (and the store answers the insert, if one is made, with the given result).
  Every event is handled by the closures of the latest render, so \<open>Gallery\<close> has to
  render first.  In \<open>handle\<close> and \<open>run\<close> a submission runs \<open>onSubmit\<close> to its end,
  through the awaited insert, before the next event: they describe the sessions in which
  no submission starts while another one awaits its insert.  Sessions in which
  submissions overlap are described further down, by \<open>occur\<close> and \<open>session\<close>.
\<close>

datatype Event = ClickUpload | CloseDialog | SubmitForm Inputs InsertResult

definition submit_form :: "InsertResult \<Rightarrow> Inputs \<Rightarrow> App \<Rightarrow> js_error + App" where
  "submit_form res data st =
     (case Gallery (localImages st) of
        Inl e \<Rightarrow> Inl e
      | Inr v \<Rightarrow> handleSubmit Uploader_fields (onSubmit (uploader_amount v) res) data st)"

fun handle :: "Event \<Rightarrow> App \<Rightarrow> js_error + App" where
  "handle ClickUpload st =
     (case Gallery (localImages st) of Inl e \<Rightarrow> Inl e | Inr v \<Rightarrow> Inr (openModal st))"
| "handle CloseDialog st =
     (case Gallery (localImages st) of Inl e \<Rightarrow> Inl e | Inr v \<Rightarrow> Inr (closeModal st))"
| "handle (SubmitForm data res) st = submit_form res data st"

fun run :: "Event list \<Rightarrow> App \<Rightarrow> js_error + App" where
  "run [] st = Inr st"
| "run (e # es) st = (case handle e st of Inl err \<Rightarrow> Inl err | Inr st' \<Rightarrow> run es st')"

text \<open>
  The words of the spec for a submission that passes validation (section 4.2, step 1) and
  the key gate (step 2), and for the inputs of such submissions in a session, in the order
  in which they were made.
\<close>

definition spec_valid :: "Inputs \<Rightarrow> bool" where
  "spec_valid d =
     (imageSrc_in d \<noteq> [] \<and> test imageSrc_pattern (imageSrc_in d) \<and> key_in d \<noteq> [])"


subsection \<open>Sessions with submissions that overlap\<close>

text \<open>
  \<open>onSubmit\<close> has one suspension point, the \<open>await\<close> of the insert.  While it is
  suspended the dialog is still open and the page handles further events.  The two halves
  of \<open>onSubmit\<close>: \<open>onSubmit_begin\<close> runs up to the call of \<open>insert\<close>, and
  \<open>onSubmit_resume\<close> runs from the moment the insert has settled, with the \<open>item\<close>
  that the suspended call holds.
\<close>

definition onSubmit_begin :: "nat \<Rightarrow> Inputs \<Rightarrow> App \<Rightarrow> js_error + App" where
  "onSubmit_begin amount data st =
     (if key_in data \<noteq> ''on'' then Inr (closeModal st)
      else
        let item = \<lparr>id_img = int amount + 1,
                    imageSrc = imageSrc_in data,
                    name = or_else (name_in data) ''plant from anonymous'',
                    username = or_else (username_in data) ''anonymous''\<rparr>
        in Inr (st\<lparr>inserted := inserted st @ [item]\<rparr>))"

definition onSubmit_resume :: "Image \<Rightarrow> InsertResult \<Rightarrow> App \<Rightarrow> js_error + App" where
  "onSubmit_resume item res st =
     (case setLocalImages (append_item item) st of
        Inl e \<Rightarrow> Inl e
      | Inr st2 \<Rightarrow> Inr (closeModal st2))"







section \<open>Properties\<close>

subsection \<open>Auxiliary facts\<close>

lemma form_errors_Uploader:
  "form_errors Uploader_fields d =
     (if imageSrc_in d = [] then [(F_imageSrc, Required)]
      else if test imageSrc_pattern (imageSrc_in d) then [] else [(F_imageSrc, Pattern)]) @
     (if key_in d = [] then [(F_key, Required)] else [])"
  by (simp add: Uploader_fields_def validateField_def)

lemma form_errors_valid: "form_errors Uploader_fields d = [] \<longleftrightarrow> spec_valid d"
  by (simp add: form_errors_Uploader spec_valid_def)

lemma Gallery_Some:
  "Gallery (Some xs) = Inr \<lparr>uploader_amount = length xs, grid = Tiles (map BlurImage xs)\<rparr>"
  by (simp add: Gallery_def array_length_def)

lemma handleSubmit_valid:
  "spec_valid d \<Longrightarrow> handleSubmit Uploader_fields h d st = h d (st\<lparr>errors := []\<rparr>)"
  by (simp add: handleSubmit_def form_errors_valid)

lemma handleSubmit_invalid:
  "\<not> spec_valid d \<Longrightarrow>
   handleSubmit Uploader_fields h d st = Inr (st\<lparr>errors := form_errors Uploader_fields d\<rparr>)"
  by (simp add: handleSubmit_def form_errors_valid)

lemma onSubmit_on:
  "localImages st = Some xs \<Longrightarrow> key_in d = ''on'' \<Longrightarrow>
   onSubmit amount res d st =
     Inr (st\<lparr>localImages :=
               Some (xs @ [\<lparr>id_img = int amount + 1, imageSrc = imageSrc_in d,
                            name = or_else (name_in d) ''plant from anonymous'',
                            username = or_else (username_in d) ''anonymous''\<rparr>]),
             isOpen := False,
             inserted := inserted st @
               [\<lparr>id_img = int amount + 1, imageSrc = imageSrc_in d,
                 name = or_else (name_in d) ''plant from anonymous'',
                 username = or_else (username_in d) ''anonymous''\<rparr>]\<rparr>)"
  by (simp add: onSubmit_def setLocalImages_def append_item_def closeModal_def Let_def)


lemma submit_form_on:
  "localImages st = Some xs \<Longrightarrow> spec_valid d \<Longrightarrow> key_in d = ''on'' \<Longrightarrow>
   submit_form res d st =
     Inr (st\<lparr>localImages :=
               Some (xs @ [\<lparr>id_img = int (length xs) + 1, imageSrc = imageSrc_in d,
                            name = or_else (name_in d) ''plant from anonymous'',
                            username = or_else (username_in d) ''anonymous''\<rparr>]),
             isOpen := False,
             errors := [],
             inserted := inserted st @
               [\<lparr>id_img = int (length xs) + 1, imageSrc = imageSrc_in d,
                 name = or_else (name_in d) ''plant from anonymous'',
                 username = or_else (username_in d) ''anonymous''\<rparr>]\<rparr>)"
  by (simp add: submit_form_def Gallery_Some handleSubmit_valid onSubmit_on)




lemma search_append:
  "(\<And>q. ends r (q, s) \<noteq> []) \<Longrightarrow> search r p (pre @ s)"
proof (induction pre arbitrary: p)
  case Nil
  then show ?case by (cases s) simp_all
next
  case (Cons a pre)
  then show ?case by simp
qed

lemma ends_ab_url: "ends imageSrc_pattern (p, ''ab.url'') \<noteq> []"
  by (simp add: imageSrc_pattern_def lits_def host_class_def in_class_def is_word_def word_chars_def next_char_def)


lemma run_append:
  "run (es1 @ es2) st = (case run es1 st of Inl err \<Rightarrow> Inl err | Inr st' \<Rightarrow> run es2 st')"
  by (induction es1 arbitrary: st) (simp_all split: sum.splits)


lemma onSubmit_halves:
  "onSubmit amount res d st =
     (case onSubmit_begin amount d st of
        Inl e \<Rightarrow> Inl e
      | Inr st1 \<Rightarrow>
          (case drop (length (inserted st)) (inserted st1) of
             [] \<Rightarrow> Inr st1
           | item # _ \<Rightarrow> onSubmit_resume item res st1))"
  by (simp add: onSubmit_def onSubmit_begin_def onSubmit_resume_def closeModal_def Let_def
      setLocalImages_def append_item_def split: option.splits)












subsection \<open>Submitting the form\<close>

text \<open>
  C1.  On a page that shows a list \<open>xs\<close> of \<open>N\<close> images, submitting the form with the key
  \<open>on\<close>, an \<open>imageSrc\<close> that passes validation, and empty \<open>name\<close> and \<open>username\<close>
  succeeds and leaves the list \<open>xs\<close> followed by exactly one new record, whose \<open>id\<close> is
  \<open>N + 1\<close>, whose \<open>imageSrc\<close> is the one entered, and whose \<open>name\<close> and \<open>username\<close>
  are the two placeholders.
\<close>

theorem submit_defaults:
  assumes "localImages st = Some xs"
    and "key_in d = ''on''"
    and "imageSrc_in d \<noteq> []" and "test imageSrc_pattern (imageSrc_in d)"
    and "name_in d = []" and "username_in d = []"
  shows "\<exists>st'. submit_form res d st = Inr st' \<and>
           localImages st' =
             Some (xs @ [\<lparr>id_img = int (length xs) + 1, imageSrc = imageSrc_in d,
                          name = ''plant from anonymous'', username = ''anonymous''\<rparr>])"
proof -
  from assms have "spec_valid d" by (simp add: spec_valid_def)
  with assms show ?thesis by (simp add: submit_form_on or_else_def)
qed

theorem submit_defaults_witness:
  "\<exists>st'. submit_form InsertOk
           \<lparr>imageSrc_in = ''https://images.unsplash.com/photo-1'', name_in = [],
            username_in = [], key_in = ''on''\<rparr>
           (mount (Some [\<lparr>id_img = 7, imageSrc = ''a.example/x'', name = ''fern'',
                          username = ''bob''\<rparr>])) = Inr st' \<and>
         localImages st' =
           Some [\<lparr>id_img = 7, imageSrc = ''a.example/x'', name = ''fern'', username = ''bob''\<rparr>,
                 \<lparr>id_img = 2, imageSrc = ''https://images.unsplash.com/photo-1'',
                  name = ''plant from anonymous'', username = ''anonymous''\<rparr>]"
proof -
  have p: "test imageSrc_pattern ''https://images.unsplash.com/photo-1''" by code_simp
  show ?thesis
    using submit_defaults
      [of "mount (Some [\<lparr>id_img = 7, imageSrc = ''a.example/x'', name = ''fern'',
                          username = ''bob''\<rparr>])"
          "[\<lparr>id_img = 7, imageSrc = ''a.example/x'', name = ''fern'', username = ''bob''\<rparr>]"
          "\<lparr>imageSrc_in = ''https://images.unsplash.com/photo-1'', name_in = [],
            username_in = [], key_in = ''on''\<rparr>" InsertOk] p
    by (simp add: mount_def)
qed

text \<open>
  C2.  A submission whose fields pass validation and whose key is not \<open>on\<close> returns
  without an exception and only closes the dialog: no row is passed to the store, the list
  is the one from before, the form state holds no error, and \<open>Uploader\<close> shows its trigger
  button and nothing else.  This holds for every state and for every value of \<open>amount\<close>.
\<close>

theorem gate_failure_closes:
  assumes "spec_valid d" and "key_in d \<noteq> ''on''"
  shows "\<exists>st'. handleSubmit Uploader_fields (onSubmit amount res) d st = Inr st' \<and>
           isOpen st' = False \<and> localImages st' = localImages st \<and>
           inserted st' = inserted st \<and> errors st' = [] \<and>
           Uploader st' = \<lparr>trigger = ''Upload'', dialog = None\<rparr>"
  using assms
  by (simp add: handleSubmit_valid onSubmit_def closeModal_def Uploader_def)

theorem gate_failure_closes_witness:
  "spec_valid \<lparr>imageSrc_in = ''example.com/leaf.png'', name_in = ''ivy'',
              username_in = ''ann'', key_in = ''off''\<rparr> \<and>
   (\<exists>st'. handleSubmit Uploader_fields (onSubmit 0 InsertOk)
            \<lparr>imageSrc_in = ''example.com/leaf.png'', name_in = ''ivy'',
             username_in = ''ann'', key_in = ''off''\<rparr>
            (openModal (mount (Some []))) = Inr st' \<and>
          isOpen st' = False \<and> localImages st' = Some [] \<and> inserted st' = [])"
proof -
  have v: "spec_valid \<lparr>imageSrc_in = ''example.com/leaf.png'', name_in = ''ivy'',
                       username_in = ''ann'', key_in = ''off''\<rparr>"
    by code_simp
  have k: "key_in \<lparr>imageSrc_in = ''example.com/leaf.png'', name_in = ''ivy'',
                   username_in = ''ann'', key_in = ''off''\<rparr> \<noteq> ''on''"
    by simp
  show ?thesis
    using v gate_failure_closes [OF v k, of 0 InsertOk "openModal (mount (Some []))"]
    by (auto simp add: mount_def openModal_def)
qed

text \<open>
  C5.  A submission that passes validation and the key gate ends the same way whether the
  awaited insert reports success or a failure with any message: no exception, the record
  appended to the list, the dialog closed, no error in the form state, and only the
  trigger button shown by \<open>Uploader\<close>.
\<close>

theorem insert_outcome_ignored:
  assumes "localImages st = Some xs" and "spec_valid d" and "key_in d = ''on''"
  shows "\<exists>st'. submit_form (InsertError msg) d st = Inr st' \<and>
           submit_form InsertOk d st = Inr st' \<and>
           localImages st' =
             Some (xs @ [\<lparr>id_img = int (length xs) + 1, imageSrc = imageSrc_in d,
                          name = or_else (name_in d) ''plant from anonymous'',
                          username = or_else (username_in d) ''anonymous''\<rparr>]) \<and>
           isOpen st' = False \<and> errors st' = [] \<and>
           Uploader st' = \<lparr>trigger = ''Upload'', dialog = None\<rparr>"
  using assms by (simp add: submit_form_on Uploader_def)

theorem insert_outcome_ignored_witness:
  "\<exists>st'. submit_form (InsertError ''FetchError: network'')
           \<lparr>imageSrc_in = ''example.com/leaf.png'', name_in = ''ivy'',
            username_in = [], key_in = ''on''\<rparr>
           (openModal (mount (Some []))) = Inr st' \<and>
         localImages st' =
           Some [\<lparr>id_img = 1, imageSrc = ''example.com/leaf.png'', name = ''ivy'',
                  username = ''anonymous''\<rparr>] \<and>
         isOpen st' = False"
proof -
  have v: "spec_valid \<lparr>imageSrc_in = ''example.com/leaf.png'', name_in = ''ivy'',
                       username_in = [], key_in = ''on''\<rparr>"
    by code_simp
  have l: "localImages (openModal (mount (Some []))) = Some []"
    by (simp add: mount_def openModal_def)
  show ?thesis
    using insert_outcome_ignored [OF l v, of "''FetchError: network''"]
    by (auto simp add: or_else_def)
qed

text \<open>
  C10.  On a submission that passes validation and the key gate, the row passed to the
  store and the record appended to the list are one and the same value of type \<open>Image\<close>:
  the four fields \<open>id\<close>, \<open>imageSrc\<close>, \<open>name\<close> and \<open>username\<close>, and no \<open>key\<close>.
\<close>

theorem same_record_inserted_and_appended:
  assumes "localImages st = Some xs" and "spec_valid d" and "key_in d = ''on''"
  shows "\<exists>st' item. submit_form res d st = Inr st' \<and>
           inserted st' = inserted st @ [item] \<and>
           localImages st' = Some (xs @ [item]) \<and>
           item = \<lparr>id_img = int (length xs) + 1, imageSrc = imageSrc_in d,
                   name = or_else (name_in d) ''plant from anonymous'',
                   username = or_else (username_in d) ''anonymous''\<rparr>"
  using assms by (simp add: submit_form_on)

theorem same_record_inserted_and_appended_witness:
  "\<exists>st'. submit_form InsertOk
           \<lparr>imageSrc_in = ''example.com/moss.jpg'', name_in = [],
            username_in = ''cy'', key_in = ''on''\<rparr>
           (mount (Some [])) = Inr st' \<and>
         inserted st' =
           [\<lparr>id_img = 1, imageSrc = ''example.com/moss.jpg'',
             name = ''plant from anonymous'', username = ''cy''\<rparr>] \<and>
         localImages st' =
           Some [\<lparr>id_img = 1, imageSrc = ''example.com/moss.jpg'',
                  name = ''plant from anonymous'', username = ''cy''\<rparr>]"
proof -
  have v: "spec_valid \<lparr>imageSrc_in = ''example.com/moss.jpg'', name_in = [],
                       username_in = ''cy'', key_in = ''on''\<rparr>"
    by code_simp
  have l: "localImages (mount (Some [])) = Some []"
    by (simp add: mount_def)
  show ?thesis
    using same_record_inserted_and_appended [OF l v, of InsertOk]
    by (auto simp add: or_else_def mount_def)
qed

text \<open>
  C6.  On a page that shows \<open>N\<close> images, two submissions one after the other, each
  passing validation and the key gate, and the second handled by the render that follows
  the first, both succeed; the list is then the old one followed by the two new records in
  this order, with the ids \<open>N + 1\<close> and \<open>N + 2\<close>, and \<open>Gallery\<close> renders the tiles in
  the same order.
\<close>

theorem two_submissions:
  assumes "localImages st = Some xs"
    and "spec_valid d1" and "key_in d1 = ''on''"
    and "spec_valid d2" and "key_in d2 = ''on''"
  shows "\<exists>st1 st2 i1 i2.
           submit_form r1 d1 st = Inr st1 \<and> submit_form r2 d2 st1 = Inr st2 \<and>
           run [SubmitForm d1 r1, SubmitForm d2 r2] st = Inr st2 \<and>
           localImages st1 = Some (xs @ [i1]) \<and>
           localImages st2 = Some (xs @ [i1, i2]) \<and>
           id_img i1 = int (length xs) + 1 \<and> id_img i2 = int (length xs) + 2 \<and>
           imageSrc i1 = imageSrc_in d1 \<and> imageSrc i2 = imageSrc_in d2 \<and>
           Gallery (localImages st2) =
             Inr \<lparr>uploader_amount = length xs + 2,
                  grid = Tiles (map BlurImage xs @ [BlurImage i1, BlurImage i2])\<rparr>"
proof -
  let ?i1 = "\<lparr>id_img = int (length xs) + 1, imageSrc = imageSrc_in d1,
              name = or_else (name_in d1) ''plant from anonymous'',
              username = or_else (username_in d1) ''anonymous''\<rparr>"
  let ?st1 = "st\<lparr>localImages := Some (xs @ [?i1]), isOpen := False, errors := [],
                inserted := inserted st @ [?i1]\<rparr>"
  let ?i2 = "\<lparr>id_img = int (length xs) + 2, imageSrc = imageSrc_in d2,
              name = or_else (name_in d2) ''plant from anonymous'',
              username = or_else (username_in d2) ''anonymous''\<rparr>"
  have s1: "submit_form r1 d1 st = Inr ?st1"
    using assms(1-3) by (simp add: submit_form_on)
  have l1: "localImages ?st1 = Some (xs @ [?i1])" by simp
  obtain st2 where s2: "submit_form r2 d2 ?st1 = Inr st2"
    and l2: "localImages st2 = Some (xs @ [?i1, ?i2])"
    using submit_form_on [OF l1 assms(4,5), of r2] by simp
  have "run [SubmitForm d1 r1, SubmitForm d2 r2] st = Inr st2"
    using s1 s2 by simp
  moreover have "Gallery (localImages st2) =
     Inr \<lparr>uploader_amount = length xs + 2,
          grid = Tiles (map BlurImage xs @ [BlurImage ?i1, BlurImage ?i2])\<rparr>"
    using l2 by (simp add: Gallery_Some)
  ultimately show ?thesis using s1 s2 l1 l2
    by (intro exI [of _ ?st1] exI [of _ st2] exI [of _ ?i1] exI [of _ ?i2]) simp
qed

theorem two_submissions_witness:
  "\<exists>st2. run [SubmitForm \<lparr>imageSrc_in = ''example.com/moss.jpg'', name_in = [],
                           username_in = ''cy'', key_in = ''on''\<rparr> InsertOk,
                SubmitForm \<lparr>imageSrc_in = ''example.com/leaf.png'', name_in = ''ivy'',
                           username_in = [], key_in = ''on''\<rparr> (InsertError ''denied'')]
               (mount (Some [\<lparr>id_img = 7, imageSrc = ''a.example/x'', name = ''fern'',
                              username = ''bob''\<rparr>])) = Inr st2 \<and>
          map id_img (the (localImages st2)) = [7, 2, 3] \<and>
          map imageSrc (the (localImages st2)) =
            [''a.example/x'', ''example.com/moss.jpg'', ''example.com/leaf.png'']"
proof -
  have v1: "spec_valid \<lparr>imageSrc_in = ''example.com/moss.jpg'', name_in = [],
                        username_in = ''cy'', key_in = ''on''\<rparr>"
    by code_simp
  have v2: "spec_valid \<lparr>imageSrc_in = ''example.com/leaf.png'', name_in = ''ivy'',
                        username_in = [], key_in = ''on''\<rparr>"
    by code_simp
  have l: "localImages (mount (Some [\<lparr>id_img = 7, imageSrc = ''a.example/x'', name = ''fern'',
                              username = ''bob''\<rparr>])) =
           Some [\<lparr>id_img = 7, imageSrc = ''a.example/x'', name = ''fern'', username = ''bob''\<rparr>]"
    by (simp add: mount_def)
  show ?thesis
    using two_submissions [OF l v1 _ v2, of InsertOk "InsertError ''denied''"]
    by auto
qed

subsection \<open>Validation\<close>

text \<open>
  C7.  When \<open>imageSrc\<close> is empty, or \<open>key\<close> is empty, or \<open>imageSrc\<close> has no match of
  the pattern, the form is not submitted: whatever the handler is, the result is the state
  from before with a non-empty list of errors in the form state, so the dialog stays as it
  was, the list is unchanged and no row is passed to the store.  The input
  \<open>not a url\<close> has no match of the pattern.
\<close>

theorem invalid_form_blocks:
  assumes "imageSrc_in d = [] \<or> key_in d = [] \<or> \<not> test imageSrc_pattern (imageSrc_in d)"
  shows "\<exists>st'. (\<forall>h. handleSubmit Uploader_fields h d st = Inr st') \<and>
           isOpen st' = isOpen st \<and> localImages st' = localImages st \<and>
           inserted st' = inserted st \<and> errors st' \<noteq> [] \<and>
           \<not> test imageSrc_pattern ''not a url''"
proof -
  from assms have nv: "\<not> spec_valid d" by (auto simp add: spec_valid_def)
  have ne: "form_errors Uploader_fields d \<noteq> []" using nv by (simp add: form_errors_valid)
  have ex: "\<not> test imageSrc_pattern ''not a url''" by code_simp
  show ?thesis
    using ne ex by (simp add: handleSubmit_invalid [OF nv])
qed

theorem invalid_form_blocks_witness:
  "\<not> test imageSrc_pattern ''not a url'' \<and>
   (\<exists>st'. handleSubmit Uploader_fields (onSubmit 1 InsertOk)
            \<lparr>imageSrc_in = ''not a url'', name_in = [], username_in = [], key_in = ''on''\<rparr>
            (openModal (mount (Some [\<lparr>id_img = 7, imageSrc = ''a.example/x'',
                                      name = ''fern'', username = ''bob''\<rparr>]))) = Inr st' \<and>
          isOpen st' = True \<and>
          localImages st' =
            Some [\<lparr>id_img = 7, imageSrc = ''a.example/x'', name = ''fern'', username = ''bob''\<rparr>] \<and>
          inserted st' = [])"
proof -
  have p: "\<not> test imageSrc_pattern ''not a url''" by code_simp
  show ?thesis
    using p invalid_form_blocks
      [of "\<lparr>imageSrc_in = ''not a url'', name_in = [], username_in = [], key_in = ''on''\<rparr>"
          "openModal (mount (Some [\<lparr>id_img = 7, imageSrc = ''a.example/x'',
                                     name = ''fern'', username = ''bob''\<rparr>]))"]
    by (auto simp add: mount_def openModal_def)
qed

text \<open>
  C8, as amended.  The pattern is not anchored.  The input \<open>not ab.url\<close> is not matched
  as a whole, but it has a match of the pattern, and so has every string that ends with
  \<open>ab.url\<close>; with this input and a key, the form calls its handler.
\<close>

theorem unanchored_pattern:
  "test imageSrc_pattern ''not ab.url'' \<and> \<not> whole imageSrc_pattern ''not ab.url'' \<and>
   (\<forall>pre. test imageSrc_pattern (pre @ ''ab.url'')) \<and>
   (\<forall>h st. handleSubmit Uploader_fields h
              \<lparr>imageSrc_in = ''not ab.url'', name_in = [], username_in = [], key_in = ''on''\<rparr> st =
            h \<lparr>imageSrc_in = ''not ab.url'', name_in = [], username_in = [], key_in = ''on''\<rparr>
              (st\<lparr>errors := []\<rparr>))"
proof -
  have a: "test imageSrc_pattern ''not ab.url''" by code_simp
  have b: "\<not> whole imageSrc_pattern ''not ab.url''" by code_simp
  have c: "\<forall>pre. test imageSrc_pattern (pre @ ''ab.url'')"
    unfolding test_def using search_append [of imageSrc_pattern "''ab.url''"] ends_ab_url by blast
  have d: "spec_valid \<lparr>imageSrc_in = ''not ab.url'', name_in = [], username_in = [], key_in = ''on''\<rparr>"
    using a by (simp add: spec_valid_def)
  show ?thesis using a b c handleSubmit_valid [OF d] by blast
qed

theorem unanchored_pattern_witness:
  "test imageSrc_pattern ''see my plant at ab.url'' \<and>
   (\<exists>st'. handleSubmit Uploader_fields (onSubmit 0 InsertOk)
            \<lparr>imageSrc_in = ''not ab.url'', name_in = [], username_in = [], key_in = ''on''\<rparr>
            (mount (Some [])) = Inr st' \<and>
          localImages st' =
            Some [\<lparr>id_img = 1, imageSrc = ''not ab.url'', name = ''plant from anonymous'',
                   username = ''anonymous''\<rparr>])"
proof -
  have "test imageSrc_pattern (''see my plant at '' @ ''ab.url'')"
    using unanchored_pattern by blast
  moreover have "handleSubmit Uploader_fields (onSubmit 0 InsertOk)
            \<lparr>imageSrc_in = ''not ab.url'', name_in = [], username_in = [], key_in = ''on''\<rparr>
            (mount (Some [])) =
          onSubmit 0 InsertOk
            \<lparr>imageSrc_in = ''not ab.url'', name_in = [], username_in = [], key_in = ''on''\<rparr>
            ((mount (Some []))\<lparr>errors := []\<rparr>)"
    using unanchored_pattern by blast
  ultimately show ?thesis
    by (simp add: onSubmit_on [of _ "[]"] mount_def or_else_def)
qed

text \<open>
  The example of C8 as it was written: \<open>not a.url\<close> has no match of the pattern (only one
  character of the class stands before the dot), and the form is not submitted.
\<close>

theorem pattern_example_counterexample:
  "\<not> test imageSrc_pattern ''not a.url'' \<and>
   handleSubmit Uploader_fields (onSubmit 0 InsertOk)
     \<lparr>imageSrc_in = ''not a.url'', name_in = [], username_in = [], key_in = ''on''\<rparr>
     (mount (Some [])) =
   Inr ((mount (Some []))\<lparr>errors := [(F_imageSrc, Pattern)]\<rparr>)"
proof -
  have a: "\<not> test imageSrc_pattern ''not a.url''" by code_simp
  then have "\<not> spec_valid \<lparr>imageSrc_in = ''not a.url'', name_in = [], username_in = [], key_in = ''on''\<rparr>"
    by (simp add: spec_valid_def)
  from handleSubmit_invalid [OF this] a show ?thesis
    by (simp add: form_errors_Uploader)
qed

subsection \<open>Rendering the list\<close>

text \<open>
  C3.  What \<open>Gallery\<close> does when it is given \<open>null\<close>: it throws a TypeError, and renders
  neither the fallback message nor a grid.
\<close>

theorem Gallery_null_faults: "Gallery None = Inl TypeError"
  by (simp add: Gallery_def array_length_def)

text \<open>
  C9.  \<open>Gallery\<close> reads \<open>localImages.length\<close> before it tests \<open>localImages\<close>: given
  \<open>null\<close> it throws, given an array it renders with \<open>amount\<close> the length of the array,
  and no input at all makes it render the fallback message.
\<close>

theorem length_read_before_null_check:
  "Gallery None = Inl TypeError \<and>
   (\<forall>xs. Gallery (Some xs) =
      Inr \<lparr>uploader_amount = length xs, grid = Tiles (map BlurImage xs)\<rparr>) \<and>
   (\<forall>imgs n. Gallery imgs \<noteq> Inr \<lparr>uploader_amount = n, grid = ImagesNotFound\<rparr>)"
  by (auto simp add: Gallery_def array_length_def split: option.splits)




end
